theory Spec2Isabelle
  imports Main "HOL-Library.Sublist"
begin

section \<open>Text\<close>

text \<open>
  A Python \<open>str\<close> is modelled as a \<open>string\<close>: the list of its characters, one
  \<open>char\<close> per ASCII character. The currency symbols outside ASCII stand as their UTF-8
  bytes. Character classes are the ASCII part of Python's: \<open>\d\<close> is \<open>0-9\<close>,
  \<open>\s\<close> and \<open>str.isspace\<close> are the ten ASCII whitespace characters, letters are
  \<open>A-Z\<close> and \<open>a-z\<close>, and case is folded on these letters only. The functions of
  \<open>extract_duration\<close> are the exception: they read a text as the list of its Unicode
  code points, with Python's own classes of digits, whitespace and letters.
\<close>

definition NL :: char where
  "NL = CHR 0x0A"

definition uppercase :: string where
  "uppercase = ''ABCDEFGHIJKLMNOPQRSTUVWXYZ''"

definition lowercase :: string where
  "lowercase = ''abcdefghijklmnopqrstuvwxyz''"

definition is_digit :: "char \<Rightarrow> bool" where
  "is_digit c = (c \<in> set ''0123456789'')"

definition is_space :: "char \<Rightarrow> bool" where
  "is_space c = (c \<in> set [CHR 0x09, CHR 0x0A, CHR 0x0B, CHR 0x0C, CHR 0x0D,
                             CHR 0x1C, CHR 0x1D, CHR 0x1E, CHR 0x1F, CHR 0x20])"

definition is_upper :: "char \<Rightarrow> bool" where
  "is_upper c = (c \<in> set uppercase)"

definition is_alpha :: "char \<Rightarrow> bool" where
  "is_alpha c = (c \<in> set uppercase \<or> c \<in> set lowercase)"

definition lower_char :: "char \<Rightarrow> char" where
  "lower_char c = (case map_of (zip uppercase lowercase) c of Some l \<Rightarrow> l | None \<Rightarrow> c)"

text \<open>\<open>s.lower()\<close>\<close>

definition lower :: "string \<Rightarrow> string" where
  "lower s = map lower_char s"

text \<open>\<open>sub in s\<close>\<close>

fun contains :: "'a list \<Rightarrow> 'a list \<Rightarrow> bool" where
  "contains sub [] = (sub = [])"
| "contains sub (c # cs) = (prefix sub (c # cs) \<or> contains sub cs)"

text \<open>\<open>s.startswith(p)\<close>\<close>

definition startswith :: "string \<Rightarrow> string \<Rightarrow> bool" where
  "startswith s p = prefix p s"

text \<open>
  \<open>s.replace(old, new)\<close>: the occurrences of \<open>old\<close> are found from the left and do
  not overlap. With an empty \<open>old\<close>, Python puts \<open>new\<close> before every character and
  at the end.
\<close>

function py_replace :: "string \<Rightarrow> string \<Rightarrow> string \<Rightarrow> string" where
  "py_replace old new [] = (if old = [] then new else [])"
| "py_replace old new (c # cs) =
     (if old = [] then new @ c # py_replace old new cs
      else if prefix old (c # cs) then new @ py_replace old new (drop (length old) (c # cs))
      else c # py_replace old new cs)"
  by pat_completeness auto
termination
  by (relation "measure (\<lambda>(old, new, s). length s)") auto

text \<open>\<open>s.split(sep)\<close> for a one-character separator: never an empty list.\<close>

fun split_on :: "char \<Rightarrow> string \<Rightarrow> string list" where
  "split_on sep [] = [[]]"
| "split_on sep (c # cs) =
     (if c = sep then [] # split_on sep cs
      else (case split_on sep cs of
              [] \<Rightarrow> [[c]]
            | l # ls \<Rightarrow> (c # l) # ls))"

section \<open>The budget section (app.py)\<close>

text \<open>\<open>remove_asterisks\<close>: \<open>text.replace("**", "")\<close>.\<close>

definition remove_asterisks :: "string \<Rightarrow> string" where
  "remove_asterisks text = py_replace ''**'' [] text"

text \<open>The test of the \<open>for\<close> loop: \<open>"budget" in line.lower() and "#" in line\<close>.\<close>

definition is_budget_heading :: "string \<Rightarrow> bool" where
  "is_budget_heading line = (contains ''budget'' (lower line) \<and> contains ''#'' line)"

text \<open>
  The inner \<open>while\<close> loop, over the lines after the heading: it appends each line and a
  newline, and stops at the first line that starts with \<open>#\<close> or at the end.
\<close>

fun collect_section :: "string list \<Rightarrow> string" where
  "collect_section [] = []"
| "collect_section (l # ls) =
     (if startswith l ''#'' then [] else l @ [NL] @ collect_section ls)"

text \<open>
  The \<open>for\<close> loop with its \<open>break\<close>: the pair of \<open>budget_found\<close> and
  \<open>budget_section\<close> when the loop is left.
\<close>

fun find_budget :: "string list \<Rightarrow> bool \<times> string" where
  "find_budget [] = (False, [])"
| "find_budget (line # rest) =
     (if is_budget_heading line then (True, line @ [NL] @ collect_section rest)
      else find_budget rest)"

definition budget_found :: "string \<Rightarrow> bool" where
  "budget_found itinerary = fst (find_budget (split_on NL itinerary))"

text \<open>\<open>budget_section\<close> after \<open>remove_asterisks\<close> (line 79).\<close>

definition budget_section :: "string \<Rightarrow> string" where
  "budget_section itinerary = remove_asterisks (snd (find_budget (split_on NL itinerary)))"

section \<open>Amounts as doubles\<close>

text \<open>
  A Python \<open>float\<close> that is not negative: \<open>Finite m e\<close> is the double of value
  \<open>m * 2 ^ e\<close>, \<open>Infinity\<close> is \<open>inf\<close>. The amounts of this program are parsed from
  digits and multiplied by a positive rate, so neither a negative number nor a NaN occurs.
  Every operation rounds the exact result to the nearest double, ties to even, as IEEE 754
  and CPython's \<open>float()\<close> do.
\<close>

datatype pyfloat = Finite nat int | Infinity

fun bitlen :: "nat \<Rightarrow> nat" where
  "bitlen n = (if n = 0 then 0 else Suc (bitlen (n div 2)))"

declare bitlen.simps [simp del]

text \<open>\<open>n / d\<close> rounded to the nearest natural number, a tie to the even one.\<close>

definition round_half_even :: "nat \<Rightarrow> nat \<Rightarrow> nat" where
  "round_half_even n d =
     (let q = n div d; r = n mod d
      in if 2 * r < d then q
         else if d < 2 * r then q + 1
         else if even q then q else q + 1)"

text \<open>The exponent \<open>k\<close> with \<open>2 ^ k \<le> a / b < 2 ^ (k + 1)\<close>, for \<open>a, b > 0\<close>.\<close>

definition floor_log2 :: "nat \<Rightarrow> nat \<Rightarrow> int" where
  "floor_log2 a b =
     (let k = int (bitlen a) - int (bitlen b)
      in if (if 0 \<le> k then b * 2 ^ nat k \<le> a else b \<le> a * 2 ^ nat (- k)) then k else k - 1)"

text \<open>
  The double nearest to \<open>a / b\<close>: 53 bits of mantissa, the exponent of the last bit not
  below \<open>-1074\<close> (subnormal numbers), and \<open>inf\<close> from \<open>2 ^ 1024\<close> on.
\<close>

definition round_double :: "nat \<Rightarrow> nat \<Rightarrow> pyfloat" where
  "round_double a b =
     (if a = 0 then Finite 0 0
      else
        let e = max (floor_log2 a b - 52) (- 1074);
            m = (if 0 \<le> e then round_half_even a (b * 2 ^ nat e)
                 else round_half_even (a * 2 ^ nat (- e)) b)
        in if 971 < e \<or> (e = 971 \<and> 2 ^ 53 \<le> m) then Infinity else Finite m e)"

text \<open>\<open>x * y\<close>; \<open>y\<close> is an exchange rate, finite and positive.\<close>

fun fmul :: "pyfloat \<Rightarrow> pyfloat \<Rightarrow> pyfloat" where
  "fmul (Finite m1 e1) (Finite m2 e2) =
     (let m = m1 * m2; e = e1 + e2
      in if 0 \<le> e then round_double (m * 2 ^ nat e) 1 else round_double m (2 ^ nat (- e)))"
| "fmul Infinity y = Infinity"
| "fmul x Infinity = Infinity"

definition digit_val :: "char \<Rightarrow> nat" where
  "digit_val c = of_char c - 48"

definition nat_of_digits :: "string \<Rightarrow> nat" where
  "nat_of_digits ds = foldl (\<lambda>acc c. 10 * acc + digit_val c) 0 ds"

text \<open>
  \<open>float(s)\<close> on the strings this program passes: digits with at most one point among
  them, at least one digit. \<open>None\<close> is the \<open>ValueError\<close> of any other string.
\<close>

definition py_float :: "string \<Rightarrow> pyfloat option" where
  "py_float s =
     (let ip = takeWhile is_digit s; r = dropWhile is_digit s
      in case r of
           [] \<Rightarrow> if ip = [] then None else Some (round_double (nat_of_digits ip) 1)
         | c # fs \<Rightarrow>
             if c = CHR ''.'' \<and> list_all is_digit fs \<and> (ip \<noteq> [] \<or> fs \<noteq> [])
             then Some (round_double (nat_of_digits (ip @ fs)) (10 ^ length fs))
             else None)"

definition digit_char :: "nat \<Rightarrow> char" where
  "digit_char d = ''0123456789'' ! d"

fun dec_digits :: "nat \<Rightarrow> string" where
  "dec_digits n = (if n < 10 then [digit_char n] else dec_digits (n div 10) @ [digit_char (n mod 10)])"

declare dec_digits.simps [simp del]

definition pad_zero :: "nat \<Rightarrow> string \<Rightarrow> string" where
  "pad_zero k s = replicate (k - length s) (CHR ''0'') @ s"

text \<open>The \<open>,\<close> of a format specification: the integer part in groups of three digits.\<close>

fun group_thousands :: "nat \<Rightarrow> string" where
  "group_thousands n =
     (if n < 1000 then dec_digits n
      else group_thousands (n div 1000) @ '','' @ pad_zero 3 (dec_digits (n mod 1000)))"

declare group_thousands.simps [simp del]

text \<open>
  \<open>f"{x:,.0f}"\<close> and \<open>f"{x:,.2f}"\<close>: the exact value of the double rounded to \<open>nd\<close>
  decimals, a tie to even.
\<close>

definition format_fixed :: "nat \<Rightarrow> pyfloat \<Rightarrow> string" where
  "format_fixed nd x =
     (case x of
        Infinity \<Rightarrow> ''inf''
      | Finite m e \<Rightarrow>
          let r = (if 0 \<le> e then m * 2 ^ nat e * 10 ^ nd
                   else round_half_even (m * 10 ^ nd) (2 ^ nat (- e)))
          in group_thousands (r div 10 ^ nd) @
             (if nd = 0 then [] else ''.'' @ pad_zero nd (dec_digits (r mod 10 ^ nd))))"

section \<open>The currency table (app.py)\<close>

text \<open>The keys of \<open>exchange_rates\<close> and \<open>currency_symbols\<close>, and the options of the
  currency select box.\<close>

datatype currency = USD | EUR | GBP | JPY | INR | AUD | CAD

fun exchange_rates :: "currency \<Rightarrow> pyfloat" where
  "exchange_rates USD = round_double 1 1"
| "exchange_rates EUR = round_double 91 100"
| "exchange_rates GBP = round_double 78 100"
| "exchange_rates JPY = round_double 15123 100"
| "exchange_rates INR = round_double 8342 100"
| "exchange_rates AUD = round_double 149 100"
| "exchange_rates CAD = round_double 135 100"

fun currency_symbols :: "currency \<Rightarrow> string" where
  "currency_symbols USD = ''$''"
| "currency_symbols EUR = [CHR 0xE2, CHR 0x82, CHR 0xAC]"
| "currency_symbols GBP = [CHR 0xC2, CHR 0xA3]"
| "currency_symbols JPY = [CHR 0xC2, CHR 0xA5]"
| "currency_symbols INR = [CHR 0xE2, CHR 0x82, CHR 0xB9]"
| "currency_symbols AUD = ''A$''"
| "currency_symbols CAD = ''C$''"

definition convert_currency :: "pyfloat \<Rightarrow> currency \<Rightarrow> string" where
  "convert_currency amount_usd target_currency =
     (if target_currency = USD
      then currency_symbols target_currency @ format_fixed 2 amount_usd
      else
        let converted = fmul amount_usd (exchange_rates target_currency)
        in if target_currency \<in> set [JPY, INR]
           then currency_symbols target_currency @ format_fixed 0 converted
           else currency_symbols target_currency @ format_fixed 2 converted)"

section \<open>Regular expressions\<close>

text \<open>
  A pattern is modelled by its matcher at the start of a text: the matched text
  (\<open>group(0)\<close>) and the captured group (\<open>group(1)\<close>), or \<open>None\<close>. \<open>re.findall\<close> tries
  the matcher at every position from the left, keeps the group of each match and goes on
  behind the match (one character further when the match is empty). \<open>re.search\<close>
  returns the first match from the left.
\<close>

type_synonym rmatch = "string \<times> string"

function findall :: "(string \<Rightarrow> rmatch option) \<Rightarrow> string \<Rightarrow> string list" where
  "findall m [] = (case m [] of None \<Rightarrow> [] | Some (whole, grp) \<Rightarrow> [grp])"
| "findall m (c # cs) =
     (case m (c # cs) of
        None \<Rightarrow> findall m cs
      | Some (whole, grp) \<Rightarrow> grp # findall m (drop (max 1 (length whole)) (c # cs)))"
  by pat_completeness auto
termination
  by (relation "measure (\<lambda>(m, s). length s)") auto

fun re_search ::
  "('a list \<Rightarrow> ('a list \<times> 'a list) option) \<Rightarrow> 'a list \<Rightarrow> ('a list \<times> 'a list) option" where
  "re_search m [] = m []"
| "re_search m (c # cs) = (case m (c # cs) of None \<Rightarrow> re_search m cs | Some r \<Rightarrow> Some r)"

text \<open>
  \<open>(?:,\d+)?\<close> and \<open>(?:\.\d+)?\<close>: the separator and the digits behind it when there is
  at least one digit, nothing otherwise.
\<close>

definition sep_digits :: "char \<Rightarrow> string \<Rightarrow> string" where
  "sep_digits sep s =
     (case s of
        [] \<Rightarrow> []
      | c # cs \<Rightarrow> if c = sep \<and> takeWhile is_digit cs \<noteq> [] then c # takeWhile is_digit cs else [])"

text \<open>
  \<open>\$(\d+(?:,\d+)?(?:\.\d+)?)\<close>. Each part is greedy and the parts behind the first
  digits are optional, so the first attempt of the backtracking matcher succeeds: all the
  digits, then one comma group if there is one, then one fraction if there is one.
\<close>

definition match_amount :: "string \<Rightarrow> rmatch option" where
  "match_amount s =
     (case s of
        [] \<Rightarrow> None
      | c # cs \<Rightarrow>
          if c \<noteq> CHR ''$'' then None
          else
            let d = takeWhile is_digit cs
            in if d = [] then None
               else
                 let r1 = drop (length d) cs;
                     g2 = sep_digits (CHR '','') r1;
                     r2 = drop (length g2) r1;
                     g3 = sep_digits (CHR ''.'') r2;
                     grp = d @ g2 @ g3
                 in Some (c # grp, grp))"

section \<open>Currency annotation (app.py, generate_budget_section)\<close>

text \<open>\<open>dollar_amounts\<close> (line 86).\<close>

definition dollar_amounts :: "string \<Rightarrow> string list" where
  "dollar_amounts section = findall match_amount section"

text \<open>
  The body of the loop over \<open>dollar_amounts\<close> (lines 89 to 99): \<open>enhanced_budget\<close>
  before and after one amount.
\<close>

definition annotate_amount :: "currency \<Rightarrow> string \<Rightarrow> string \<Rightarrow> string" where
  "annotate_amount preferred_currency enhanced_budget amount_str =
     (let clean_amount = py_replace '','' [] amount_str
      in case py_float clean_amount of
           None \<Rightarrow> enhanced_budget
         | Some amount_usd \<Rightarrow>
             let converted = convert_currency amount_usd preferred_currency
             in py_replace (''$'' @ amount_str)
                  (''$'' @ amount_str @ '' ('' @ converted @ '')'') enhanced_budget)"

text \<open>Lines 83 to 101: the annotation of a budget section.\<close>

definition enhance_budget :: "currency \<Rightarrow> string \<Rightarrow> string" where
  "enhance_budget preferred_currency section =
     foldl (annotate_amount preferred_currency) section (dollar_amounts section)"

definition generate_budget_section :: "string \<Rightarrow> currency \<Rightarrow> string" where
  "generate_budget_section itinerary preferred_currency =
     (if budget_found itinerary \<and> preferred_currency \<noteq> USD
      then enhance_budget preferred_currency (budget_section itinerary)
      else budget_section itinerary)"

section \<open>The request interpreter (itinerary_planner.py)\<close>

text \<open>\<open>s.split()\<close>: the words between runs of whitespace, none of them empty.\<close>

fun split_ws :: "string \<Rightarrow> string \<Rightarrow> string list" where
  "split_ws w [] = (if w = [] then [] else [w])"
| "split_ws w (c # cs) =
     (if is_space c then (if w = [] then split_ws [] cs else w # split_ws [] cs)
      else split_ws (w @ [c]) cs)"

definition py_split :: "string \<Rightarrow> string list" where
  "py_split s = split_ws [] s"

text \<open>\<open>s.strip()\<close>\<close>

definition py_strip :: "string \<Rightarrow> string" where
  "py_strip s = rev (dropWhile is_space (rev (dropWhile is_space s)))"

text \<open>The exceptions this model needs, each with its message (\<open>str(e)\<close>).\<close>

datatype pyexn = ValueError string | IndexError string | OtherError string

fun exn_str :: "pyexn \<Rightarrow> string" where
  "exn_str (ValueError msg) = msg"
| "exn_str (IndexError msg) = msg"
| "exn_str (OtherError msg) = msg"

text \<open>A literal of a pattern under \<open>re.IGNORECASE\<close>, at the start of a text.\<close>

definition prefix_ci :: "string \<Rightarrow> string \<Rightarrow> bool" where
  "prefix_ci lit s = (lower (take (length lit) s) = lower lit)"

subsection \<open>extract_duration\<close>

text \<open>
  For \<open>extract_duration\<close> a text is the list of its code points, as a Python \<open>str\<close> is:
  its patterns, \<open>split()\<close> and \<open>int()\<close> read whitespace, digits and letters outside ASCII
  too. The tables are those of CPython 3.11 (Unicode 14.0). \<open>ustr\<close> turns an ASCII literal
  into its code points.
\<close>

type_synonym ustring = "nat list"

definition ustr :: "string \<Rightarrow> ustring" where
  "ustr s = map of_char s"

text \<open>The characters of \<open>\s\<close> and of \<open>str.isspace\<close>.\<close>

definition uspaces :: "nat list" where
  "uspaces = [0x09, 0x0A, 0x0B, 0x0C, 0x0D, 0x1C, 0x1D, 0x1E, 0x1F, 0x20, 0x85, 0xA0, 0x1680,
              0x2000, 0x2001, 0x2002, 0x2003, 0x2004, 0x2005, 0x2006, 0x2007, 0x2008, 0x2009,
              0x200A, 0x2028, 0x2029, 0x202F, 0x205F, 0x3000]"

definition is_uspace :: "nat \<Rightarrow> bool" where
  "is_uspace c = (c \<in> set uspaces)"

text \<open>
  The characters of \<open>\d\<close> (the decimal digits of every script), as ranges of code points.
  Each range starts at a digit zero and the digits follow in order: the value of a digit
  is its distance from the start of its range, modulo 10.
\<close>

definition decimal_ranges :: "(nat \<times> nat) list" where
  "decimal_ranges =
     [(0x30, 0x39), (0x660, 0x669), (0x6F0, 0x6F9), (0x7C0, 0x7C9), (0x966, 0x96F),
      (0x9E6, 0x9EF), (0xA66, 0xA6F), (0xAE6, 0xAEF), (0xB66, 0xB6F), (0xBE6, 0xBEF),
      (0xC66, 0xC6F), (0xCE6, 0xCEF), (0xD66, 0xD6F), (0xDE6, 0xDEF), (0xE50, 0xE59),
      (0xED0, 0xED9), (0xF20, 0xF29), (0x1040, 0x1049), (0x1090, 0x1099), (0x17E0, 0x17E9),
      (0x1810, 0x1819), (0x1946, 0x194F), (0x19D0, 0x19D9), (0x1A80, 0x1A89),
      (0x1A90, 0x1A99), (0x1B50, 0x1B59), (0x1BB0, 0x1BB9), (0x1C40, 0x1C49),
      (0x1C50, 0x1C59), (0xA620, 0xA629), (0xA8D0, 0xA8D9), (0xA900, 0xA909),
      (0xA9D0, 0xA9D9), (0xA9F0, 0xA9F9), (0xAA50, 0xAA59), (0xABF0, 0xABF9),
      (0xFF10, 0xFF19), (0x104A0, 0x104A9), (0x10D30, 0x10D39), (0x11066, 0x1106F),
      (0x110F0, 0x110F9), (0x11136, 0x1113F), (0x111D0, 0x111D9), (0x112F0, 0x112F9),
      (0x11450, 0x11459), (0x114D0, 0x114D9), (0x11650, 0x11659), (0x116C0, 0x116C9),
      (0x11730, 0x11739), (0x118E0, 0x118E9), (0x11950, 0x11959), (0x11C50, 0x11C59),
      (0x11D50, 0x11D59), (0x11DA0, 0x11DA9), (0x16A60, 0x16A69), (0x16AC0, 0x16AC9),
      (0x16B50, 0x16B59), (0x1D7CE, 0x1D7FF), (0x1E140, 0x1E149), (0x1E2F0, 0x1E2F9),
      (0x1E950, 0x1E959), (0x1FBF0, 0x1FBF9)]"

definition in_range :: "nat \<Rightarrow> nat \<times> nat \<Rightarrow> bool" where
  "in_range c r = (fst r \<le> c \<and> c \<le> snd r)"

definition is_decimal :: "nat \<Rightarrow> bool" where
  "is_decimal c = list_ex (in_range c) decimal_ranges"

definition decimal_val :: "nat \<Rightarrow> nat" where
  "decimal_val c =
     (case find (in_range c) decimal_ranges of
        None \<Rightarrow> 0
      | Some r \<Rightarrow> (c - fst r) mod 10)"

definition decimal_number :: "ustring \<Rightarrow> nat" where
  "decimal_number ds = foldl (\<lambda>acc c. 10 * acc + decimal_val c) 0 ds"

text \<open>
  \<open>int(s)\<close> on a string of decimal digits, which is all this program passes to it: the
  number, or the \<open>ValueError\<close> that CPython raises for a string of more than 4300 digits.
\<close>

definition int_limit_error :: "nat \<Rightarrow> pyexn" where
  "int_limit_error n =
     ValueError (''Exceeds the limit (4300 digits) for integer string conversion: value has '' @
       dec_digits n @ '' digits; use sys.set_int_max_str_digits() to increase the limit'')"

definition py_int :: "ustring \<Rightarrow> pyexn + int" where
  "py_int s =
     (if 4300 < length s then Inl (int_limit_error (length s))
      else Inr (int (decimal_number s)))"

text \<open>
  The characters that a character \<open>l\<close> of a pattern matches under \<open>re.IGNORECASE\<close>, for an
  ASCII \<open>l\<close>: a letter matches itself in both cases, and \<open>i\<close>, \<open>k\<close> and \<open>s\<close> match the
  dotted and the dotless i (U+0130, U+0131), the Kelvin sign (U+212A) and the long s
  (U+017F) besides. Any other character matches itself.
\<close>

definition ci_variants :: "nat \<Rightarrow> nat list" where
  "ci_variants l =
     (let lo = (if 0x41 \<le> l \<and> l \<le> 0x5A then l + 32 else l)
      in if lo = 0x69 then [0x69, 0x49, 0x130, 0x131]
         else if lo = 0x6B then [0x6B, 0x4B, 0x212A]
         else if lo = 0x73 then [0x73, 0x53, 0x17F]
         else if 0x61 \<le> lo \<and> lo \<le> 0x7A then [lo, lo - 32]
         else [lo])"

definition ci_match :: "nat \<Rightarrow> nat \<Rightarrow> bool" where
  "ci_match l c = (c \<in> set (ci_variants l))"

fun ci_prefix :: "ustring \<Rightarrow> ustring \<Rightarrow> bool" where
  "ci_prefix [] s = True"
| "ci_prefix (l # lit) [] = False"
| "ci_prefix (l # lit) (c # s) = (ci_match l c \<and> ci_prefix lit s)"

text \<open>
  \<open>s.lower()\<close>, exact on every character whose lower case holds an ASCII character: the
  letters \<open>A-Z\<close>, the dotted capital I (U+0130, which becomes \<open>i\<close> and U+0307) and the
  Kelvin sign (U+212A, which becomes \<open>k\<close>). Every other character is kept as it is, where
  Python may put other characters outside ASCII. \<open>extract_duration\<close> only looks for the
  ASCII word "week" in the result, which is there for the one exactly when it is for the
  other.
\<close>

definition ulower_char :: "nat \<Rightarrow> ustring" where
  "ulower_char c =
     (if 0x41 \<le> c \<and> c \<le> 0x5A then [c + 32]
      else if c = 0x130 then [0x69, 0x307]
      else if c = 0x212A then [0x6B]
      else [c])"

definition ulower :: "ustring \<Rightarrow> ustring" where
  "ulower s = concat (map ulower_char s)"

text \<open>\<open>s.split()\<close> on code points.\<close>

fun usplit_ws :: "ustring \<Rightarrow> ustring \<Rightarrow> ustring list" where
  "usplit_ws w [] = (if w = [] then [] else [w])"
| "usplit_ws w (c # cs) =
     (if is_uspace c then (if w = [] then usplit_ws [] cs else w # usplit_ws [] cs)
      else usplit_ws (w @ [c]) cs)"

definition usplit :: "ustring \<Rightarrow> ustring list" where
  "usplit s = usplit_ws [] s"

text \<open>
  \<open>(\d+)\s+days?\<close>, \<open>(\d+)\s+weeks?\<close> and \<open>(\d+)\s+nights?\<close> under
  \<open>re.IGNORECASE\<close>, the unit word given. The digits, the whitespace and the optional
  \<open>s\<close> are greedy, and giving one of them back never lets the next part match (a digit is
  no whitespace, whitespace matches no letter), so the greedy attempt decides.
\<close>

definition match_duration :: "ustring \<Rightarrow> ustring \<Rightarrow> (ustring \<times> ustring) option" where
  "match_duration unit s =
     (let num = takeWhile is_decimal s;
          r1 = dropWhile is_decimal s;
          ws = takeWhile is_uspace r1;
          r2 = dropWhile is_uspace r1
      in if num = [] \<or> ws = [] \<or> \<not> ci_prefix unit r2 then None
         else
           let w = take (length unit) r2;
               r3 = drop (length unit) r2;
               pl = (case r3 of [] \<Rightarrow> [] | c # cs \<Rightarrow> if ci_match 0x73 c then [c] else [])
           in Some (num @ ws @ w @ pl, num))"

definition duration_patterns :: "ustring list" where
  "duration_patterns = [ustr ''day'', ustr ''week'', ustr ''night'']"

text \<open>
  The loop over \<open>duration_patterns\<close>. \<open>int(match.group(1))\<close> comes first and the function
  has no handler, so its \<open>ValueError\<close> leaves the function.
  \<open>match.group(0).split()[-1]\<close> raises \<open>IndexError\<close> on an empty list.
\<close>

fun duration_loop :: "ustring list \<Rightarrow> ustring \<Rightarrow> pyexn + int option" where
  "duration_loop [] text = Inr None"
| "duration_loop (pattern # patterns) text =
     (case re_search (match_duration pattern) text of
        None \<Rightarrow> duration_loop patterns text
      | Some (whole, grp) \<Rightarrow>
          (case py_int grp of
             Inl e \<Rightarrow> Inl e
           | Inr number \<Rightarrow>
               (case usplit whole of
                  [] \<Rightarrow> Inl (IndexError ''list index out of range'')
                | w # ws \<Rightarrow>
                    let unit = ulower (last (w # ws))
                    in if contains (ustr ''week'') unit then Inr (Some (number * 7))
                       else Inr (Some number))))"

definition extract_duration :: "ustring \<Rightarrow> pyexn + int option" where
  "extract_duration text = duration_loop duration_patterns text"

subsection \<open>extract_destinations\<close>

definition travel_verbs :: "string list" where
  "travel_verbs = [''visit'', ''travel to'', ''go to'', ''explore'', ''see'',
                   ''vacation in'', ''holiday in'', ''trip to'']"

definition is_dest_char :: "char \<Rightarrow> bool" where
  "is_dest_char c = (is_alpha c \<or> is_space c \<or> c = CHR '','')"

text \<open>
  \<open>verb\s+([A-Za-z\s,]+)\<close> under \<open>re.IGNORECASE\<close>. \<open>\s+\<close> takes all the whitespace
  behind the verb and the group the run of letters, whitespace and commas behind it. When
  that run is empty, the matcher backtracks: \<open>\s+\<close> gives its last character back, which
  the group then matches alone (there must be two whitespace characters for that).
\<close>

definition match_dest :: "string \<Rightarrow> string \<Rightarrow> rmatch option" where
  "match_dest verb s =
     (if \<not> prefix_ci verb s then None
      else
        let v = take (length verb) s;
            r0 = drop (length verb) s;
            ws = takeWhile is_space r0;
            r1 = dropWhile is_space r0;
            cap = takeWhile is_dest_char r1
        in if ws = [] then None
           else if cap \<noteq> [] then Some (v @ ws @ cap, cap)
           else if 2 \<le> length ws then Some (v @ ws, [last ws])
           else None)"

text \<open>
  \<open>re.sub(r'[,.!?]+$', '', dest)\<close> on a stripped string (no newline at its end): the
  run of these characters at the end is removed.
\<close>

definition sub_trailing_punct :: "string \<Rightarrow> string" where
  "sub_trailing_punct dest = rev (dropWhile (\<lambda>c. c \<in> set '',.!?'') (rev dest))"

definition clean_dest :: "string \<Rightarrow> string" where
  "clean_dest m = sub_trailing_punct (py_strip m)"

text \<open>The destinations one verb appends (lines 187 to 195).\<close>

definition verb_destinations :: "string \<Rightarrow> string \<Rightarrow> string list" where
  "verb_destinations text verb =
     filter (\<lambda>dest. dest \<noteq> [] \<and> 2 < length dest)
       (map clean_dest (findall (match_dest verb) text))"

definition stopwords :: "string list" where
  "stopwords = [''plan'', ''trip'', ''day'', ''week'', ''itinerary'']"

text \<open>Lines 201 to 204; \<open>split()\<close> returns no empty word, so \<open>word[0]\<close> exists.\<close>

definition capitalised_words :: "string \<Rightarrow> string list" where
  "capitalised_words text =
     filter (\<lambda>word. (case word of [] \<Rightarrow> False | c # cs \<Rightarrow> is_upper c) \<and> 3 < length word \<and>
                      lower word \<notin> set stopwords)
       (py_split text)"

text \<open>Lines 207 to 210: a destination is appended unless it is in the list already.\<close>

definition append_unique :: "string list \<Rightarrow> string \<Rightarrow> string list" where
  "append_unique unique_destinations dest =
     (if dest \<in> set unique_destinations then unique_destinations
      else unique_destinations @ [dest])"

definition extract_destinations :: "string \<Rightarrow> string list" where
  "extract_destinations text =
     (let found = concat (map (verb_destinations text) travel_verbs);
          destinations = (if found = [] then capitalised_words text else found)
      in foldl append_unique [] destinations)"

subsection \<open>get_attractions\<close>

text \<open>\<open>s.split(sep)\<close>: an empty separator raises \<open>ValueError\<close>.\<close>

function split_str :: "string \<Rightarrow> string \<Rightarrow> string \<Rightarrow> string list" where
  "split_str sep acc [] = [acc]"
| "split_str sep acc (c # cs) =
     (if sep \<noteq> [] \<and> prefix sep (c # cs) then acc # split_str sep [] (drop (length sep) (c # cs))
      else split_str sep (acc @ [c]) cs)"
  by pat_completeness auto
termination
  by (relation "measure (\<lambda>(sep, acc, s). length s)") auto

definition py_split_sep :: "string \<Rightarrow> string \<Rightarrow> pyexn + string list" where
  "py_split_sep s sep =
     (if sep = [] then Inl (ValueError ''empty separator'') else Inr (split_str sep [] s))"

text \<open>\<open>xs[i]\<close> for an index that is not negative.\<close>

definition py_index :: "'a list \<Rightarrow> nat \<Rightarrow> pyexn + 'a" where
  "py_index xs i = (if i < length xs then Inr (xs ! i) else Inl (IndexError ''list index out of range''))"

text \<open>\<open>s.split(a)[i].split(b)[0].strip()\<close>\<close>

definition between :: "string \<Rightarrow> string \<Rightarrow> nat \<Rightarrow> string \<Rightarrow> pyexn + string" where
  "between s a i b =
     (case py_split_sep s a of
        Inl e \<Rightarrow> Inl e
      | Inr parts \<Rightarrow>
          (case py_index parts i of
             Inl e \<Rightarrow> Inl e
           | Inr part \<Rightarrow>
               (case py_split_sep part b of
                  Inl e \<Rightarrow> Inl e
                | Inr pieces \<Rightarrow>
                    (case py_index pieces 0 of
                       Inl e \<Rightarrow> Inl e
                     | Inr piece \<Rightarrow> Inr (py_strip piece)))))"

text \<open>
  Lines 97 to 100, with the string literals of the source file: \<open>"json"\<close> and the empty
  string \<open>""\<close>.
\<close>

definition clean_attractions_text :: "string \<Rightarrow> pyexn + string" where
  "clean_attractions_text attractions_text =
     (if contains ''json'' attractions_text then between attractions_text ''json'' 1 []
      else if contains [] attractions_text then between attractions_text [] 1 []
      else Inr attractions_text)"

record attraction =
  name :: string
  category :: string
  description :: string
  best_for :: string

definition fallback_attractions :: "string \<Rightarrow> attraction list" where
  "fallback_attractions location =
     [\<lparr>name = ''Top Attraction 1 in '' @ location,
       category = ''Popular Landmark'',
       description = ''A must-visit destination known for its significance.'',
       best_for = ''History enthusiasts''\<rparr>,
      \<lparr>name = ''Top Attraction 2 in '' @ location,
       category = ''Museum'',
       description = ''Famous museum housing an impressive collection.'',
       best_for = ''Art and history lovers''\<rparr>]"

text \<open>
  What \<open>get_attractions\<close> returns: the value \<open>json.loads\<close> parsed, the fallback list,
  or the error string of the outer handler.
\<close>

datatype 'j attractions = Parsed 'j | Fallback "attraction list" | ErrorText string

text \<open>
  \<open>get_attractions\<close>. The two calls outside the repository are parameters:
  \<open>json_loads\<close> is \<open>json.loads\<close> (\<open>None\<close> when it raises), and \<open>response\<close> is what
  \<open>self.model.generate_content(prompt)\<close> and \<open>response.text\<close> give, the text or the
  exception raised. The outer \<open>except\<close> turns every exception into the error string.
\<close>

definition get_attractions ::
  "(string \<Rightarrow> 'j option) \<Rightarrow> string \<Rightarrow> pyexn + string \<Rightarrow> 'j attractions" where
  "get_attractions json_loads location response =
     (case response of
        Inl e \<Rightarrow> ErrorText (''Error generating attractions: '' @ exn_str e)
      | Inr attractions_text \<Rightarrow>
          (case clean_attractions_text attractions_text of
             Inl e \<Rightarrow> ErrorText (''Error generating attractions: '' @ exn_str e)
           | Inr cleaned \<Rightarrow>
               (case json_loads cleaned of
                  Some attractions \<Rightarrow> Parsed attractions
                | None \<Rightarrow> Fallback (fallback_attractions location))))"

section \<open>Markup stripping\<close>

lemma py_replace_absent:
  "old \<noteq> [] \<Longrightarrow> \<not> contains old s \<Longrightarrow> py_replace old new s = s"
  by (induction s) auto

lemma remove_asterisks_Nil: "remove_asterisks [] = []"
  by (simp add: remove_asterisks_def)

lemma remove_asterisks_pair:
  "remove_asterisks (CHR ''*'' # CHR ''*'' # cs) = remove_asterisks cs"
  by (simp add: remove_asterisks_def)

lemma remove_asterisks_other:
  "\<not> prefix ''**'' (c # cs) \<Longrightarrow> remove_asterisks (c # cs) = c # remove_asterisks cs"
  by (simp add: remove_asterisks_def del: Cons_prefix_Cons)

lemma remove_asterisks_induct:
  assumes "P []"
    and "\<And>cs. P cs \<Longrightarrow> P (CHR ''*'' # CHR ''*'' # cs)"
    and "\<And>c cs. \<not> prefix ''**'' (c # cs) \<Longrightarrow> P cs \<Longrightarrow> P (c # cs)"
  shows "P s"
proof (induction s rule: length_induct)
  case (1 s)
  show ?case
  proof (cases s)
    case Nil
    then show ?thesis using assms(1) by simp
  next
    case (Cons c cs)
    show ?thesis
    proof (cases "prefix ''**'' (c # cs)")
      case True
      then obtain ds where "s = CHR ''*'' # CHR ''*'' # ds"
        using Cons by (auto simp: prefix_def)
      then show ?thesis using 1 assms(2) by simp
    next
      case False
      then show ?thesis using 1 assms(3) Cons by simp
    qed
  qed
qed

lemma remove_asterisks_head:
  "c \<noteq> CHR ''*'' \<Longrightarrow> remove_asterisks (c # cs) = c # remove_asterisks cs"
  by (simp add: remove_asterisks_def)

lemma remove_asterisks_no_pair: "\<not> contains ''**'' (remove_asterisks s)"
proof (induction s rule: remove_asterisks_induct)
  case 1
  show ?case by (simp add: remove_asterisks_Nil)
next
  case (2 cs)
  then show ?case by (simp add: remove_asterisks_pair)
next
  case (3 c cs)
  have "\<not> prefix ''**'' (c # remove_asterisks cs)"
  proof (cases "c = CHR ''*''")
    case False
    then show ?thesis by simp
  next
    case True
    show ?thesis
    proof (cases cs)
      case Nil
      then show ?thesis by (simp add: remove_asterisks_Nil)
    next
      case (Cons d ds)
      with True 3(1) have "d \<noteq> CHR ''*''" by auto
      then show ?thesis using Cons by (simp add: remove_asterisks_head)
    qed
  qed
  with 3 show ?case by (simp add: remove_asterisks_other)
qed

text \<open>
  C9. Markup stripping is idempotent: for every string, stripping the two-character
  emphasis delimiter from an already stripped string returns it unchanged.
\<close>

theorem remove_asterisks_idempotent:
  "remove_asterisks (remove_asterisks s) = remove_asterisks s"
proof -
  have "\<not> contains ''**'' (remove_asterisks s)"
    by (rule remove_asterisks_no_pair)
  then have "py_replace ''**'' [] (remove_asterisks s) = remove_asterisks s"
    by (intro py_replace_absent) simp_all
  then show ?thesis
    by (simp add: remove_asterisks_def)
qed

section \<open>Locating the budget section\<close>

lemma find_budget_none:
  "\<forall>l \<in> set ls. \<not> is_budget_heading l \<Longrightarrow> find_budget ls = (False, [])"
  by (induction ls) auto

lemma find_budget_first:
  "\<forall>l \<in> set pre. \<not> is_budget_heading l \<Longrightarrow> is_budget_heading h \<Longrightarrow>
   find_budget (pre @ h # rest) = (True, h @ [NL] @ collect_section rest)"
  by (induction pre) auto

lemma collect_section_takeWhile:
  "collect_section ls = concat (map (\<lambda>l. l @ [NL]) (takeWhile (\<lambda>l. \<not> startswith l ''#'') ls))"
  by (induction ls) auto

lemma NL_not_asterisk: "NL \<noteq> CHR ''*''"
  by (simp add: NL_def)

lemma remove_asterisks_line:
  "remove_asterisks (l @ NL # s) = remove_asterisks l @ NL # remove_asterisks s"
proof (induction l rule: remove_asterisks_induct)
  case 1
  show ?case by (simp add: remove_asterisks_Nil remove_asterisks_head NL_not_asterisk)
next
  case (2 cs)
  then show ?case by (simp add: remove_asterisks_pair)
next
  case (3 c cs)
  have "\<not> prefix ''**'' (c # cs @ NL # s)"
    using 3(1) NL_not_asterisk by (cases cs) auto
  then have "remove_asterisks (c # cs @ NL # s) = c # remove_asterisks (cs @ NL # s)"
    by (rule remove_asterisks_other)
  with 3 show ?case by (simp add: remove_asterisks_other)
qed

lemma remove_asterisks_lines:
  "remove_asterisks (concat (map (\<lambda>l. l @ [NL]) ls)) =
   concat (map (\<lambda>l. remove_asterisks l @ [NL]) ls)"
  by (induction ls) (simp_all add: remove_asterisks_Nil remove_asterisks_line)

text \<open>
  C4. For every document: when no line holds both the substring "budget" (in any case) and
  a heading marker, no budget section is found and the result is the empty string, for
  every currency. When the lines before \<open>heading\<close> do not qualify and \<open>heading\<close> does
  (so also when it is the only such line), the section starts at that line and holds the
  lines after it up to, and without, the first line that begins with the heading marker,
  or up to the end; each line is stripped of \<open>**\<close> and ends with a newline.
\<close>

theorem locate_budget_span:
  "((\<forall>line \<in> set (split_on NL doc). \<not> is_budget_heading line) \<longrightarrow>
      \<not> budget_found doc \<and> budget_section doc = [] \<and> generate_budget_section doc cur = []) \<and>
   (split_on NL doc = pre @ heading # rest \<and>
    (\<forall>line \<in> set pre. \<not> is_budget_heading line) \<and> is_budget_heading heading \<longrightarrow>
      budget_found doc \<and>
      budget_section doc =
        concat (map (\<lambda>line. remove_asterisks line @ [NL])
                  (heading # takeWhile (\<lambda>line. \<not> startswith line ''#'') rest)) \<and>
      generate_budget_section doc cur =
        (if cur = USD then budget_section doc else enhance_budget cur (budget_section doc)))"
proof (intro conjI impI)
  assume none: "\<forall>line \<in> set (split_on NL doc). \<not> is_budget_heading line"
  then have fb: "find_budget (split_on NL doc) = (False, [])"
    by (rule find_budget_none)
  show "\<not> budget_found doc"
    by (simp add: budget_found_def fb)
  show "budget_section doc = []"
    by (simp add: budget_section_def fb remove_asterisks_Nil)
  show "generate_budget_section doc cur = []"
    by (simp add: generate_budget_section_def budget_found_def budget_section_def fb
        remove_asterisks_Nil)
next
  assume h: "split_on NL doc = pre @ heading # rest \<and>
    (\<forall>line \<in> set pre. \<not> is_budget_heading line) \<and> is_budget_heading heading"
  then have fb: "find_budget (split_on NL doc) = (True, heading @ [NL] @ collect_section rest)"
    by (simp add: find_budget_first)
  show found: "budget_found doc"
    by (simp add: budget_found_def fb)
  have "snd (find_budget (split_on NL doc)) =
      concat (map (\<lambda>l. l @ [NL]) (heading # takeWhile (\<lambda>line. \<not> startswith line ''#'') rest))"
    by (simp add: fb collect_section_takeWhile)
  then show "budget_section doc =
      concat (map (\<lambda>line. remove_asterisks line @ [NL])
                (heading # takeWhile (\<lambda>line. \<not> startswith line ''#'') rest))"
    unfolding budget_section_def by (simp only: remove_asterisks_lines)
  show "generate_budget_section doc cur =
      (if cur = USD then budget_section doc else enhance_budget cur (budget_section doc))"
    by (simp add: generate_budget_section_def found)
qed

text \<open>Rules that evaluate the text functions on a given text.\<close>

lemmas text_eval = NL_def uppercase_def lowercase_def is_digit_def is_space_def is_upper_def is_alpha_def
  lower_char_def lower_def startswith_def remove_asterisks_def is_budget_heading_def
  budget_found_def budget_section_def Let_def

theorem locate_budget_span_witness:
  "\<not> budget_found ''# Trip\<newline>Day 1: museum'' \<and>
   generate_budget_section ''# Trip\<newline>Day 1: museum'' EUR = [] \<and>
   budget_found ''# Trip\<newline>## **Budget**\<newline>Hotel: **cheap**\<newline>## Tips\<newline>Bring sunscreen'' \<and>
   budget_section ''# Trip\<newline>## **Budget**\<newline>Hotel: **cheap**\<newline>## Tips\<newline>Bring sunscreen'' =
     ''## Budget\<newline>Hotel: cheap\<newline>''"
proof -
  have a: "\<forall>line \<in> set (split_on NL ''# Trip\<newline>Day 1: museum''). \<not> is_budget_heading line"
    by (simp add: text_eval)
  have b: "split_on NL ''# Trip\<newline>## **Budget**\<newline>Hotel: **cheap**\<newline>## Tips\<newline>Bring sunscreen'' =
      [''# Trip''] @ ''## **Budget**'' # [''Hotel: **cheap**'', ''## Tips'', ''Bring sunscreen''] \<and>
      (\<forall>line \<in> set [''# Trip'']. \<not> is_budget_heading line) \<and> is_budget_heading ''## **Budget**''"
    by (simp add: text_eval)
  from locate_budget_span [of "''# Trip\<newline>Day 1: museum''" EUR, THEN conjunct1, THEN mp, OF a]
    locate_budget_span [THEN conjunct2, THEN mp, OF b]
  show ?thesis
    by (simp add: startswith_def remove_asterisks_def NL_def)
qed

section \<open>The attraction list\<close>

lemma contains_Nil: "contains [] s"
  by (cases s) simp_all

lemma split_str_nonempty: "split_str sep acc s \<noteq> []"
  by (induction sep acc s rule: split_str.induct) auto

lemma split_str_two:
  "sep \<noteq> [] \<Longrightarrow> contains sep s \<Longrightarrow> 2 \<le> length (split_str sep acc s)"
proof (induction sep acc s rule: split_str.induct)
  case (1 sep acc)
  then show ?case by simp
next
  case (2 sep acc c cs)
  show ?case
  proof (cases "prefix sep (c # cs)")
    case True
    have "1 \<le> length (split_str sep [] (drop (length sep) (c # cs)))"
      using split_str_nonempty [of sep "[]" "drop (length sep) (c # cs)"]
      by (cases "split_str sep [] (drop (length sep) (c # cs))") simp_all
    with True 2(3) show ?thesis by simp
  next
    case False
    with 2 show ?thesis by simp
  qed
qed

lemma clean_attractions_text_raises:
  "clean_attractions_text t = Inl (ValueError ''empty separator'')"
proof (cases "contains ''json'' t")
  case True
  then have "2 \<le> length (split_str ''json'' [] t)"
    by (intro split_str_two) simp_all
  then show ?thesis
    using True
    by (simp add: clean_attractions_text_def between_def py_split_sep_def py_index_def)
next
  case False
  then show ?thesis
    by (simp add: clean_attractions_text_def between_def py_split_sep_def contains_Nil)
qed

text \<open>
  C7. Whatever text the generative service answers, parseable or not,
  \<open>get_attractions\<close> returns the error string of its outer handler: the cleaning step
  splits at the empty string, which raises \<open>ValueError\<close> before \<open>json.loads\<close> and its
  fallback are reached. The fallback list is never returned.
\<close>

theorem get_attractions_error_text:
  "get_attractions json_loads location (Inr text) =
     ErrorText ''Error generating attractions: empty separator''"
  by (simp add: get_attractions_def clean_attractions_text_raises)

section \<open>Evaluating amounts\<close>

lemma bitlen_0: "bitlen 0 = 0"
  by (simp add: bitlen.simps)

lemma bitlen_pos: "0 < n \<Longrightarrow> bitlen n = Suc (bitlen (n div 2))"
  by (subst bitlen.simps) simp

lemma dec_digits_small: "n < 10 \<Longrightarrow> dec_digits n = [digit_char n]"
  by (subst dec_digits.simps) simp

lemma dec_digits_big:
  "\<not> n < 10 \<Longrightarrow> dec_digits n = dec_digits (n div 10) @ [digit_char (n mod 10)]"
  by (subst dec_digits.simps) simp

lemma group_thousands_small: "n < 1000 \<Longrightarrow> group_thousands n = dec_digits n"
  by (subst group_thousands.simps) simp

lemma group_thousands_big:
  "\<not> n < 1000 \<Longrightarrow>
   group_thousands n = group_thousands (n div 1000) @ '','' @ pad_zero 3 (dec_digits (n mod 1000))"
  by (subst group_thousands.simps) simp

lemmas float_eval = round_double_def floor_log2_def bitlen_0 bitlen_pos round_half_even_def
  Let_def py_float_def nat_of_digits_def digit_val_def format_fixed_def group_thousands_small
  group_thousands_big dec_digits_small dec_digits_big pad_zero_def digit_char_def
  convert_currency_def is_digit_def

lemmas amount_eval = sep_digits_def match_amount_def dollar_amounts_def annotate_amount_def
  enhance_budget_def generate_budget_section_def

lemma rate_EUR: "exchange_rates EUR = Finite 8196551321814303 (- 53)"
  by (simp add: float_eval)

lemma py_float_1200: "py_float ''1200'' = Some (Finite 5277655813324800 (- 42))"
  by (simp add: float_eval)

lemma convert_1200_EUR:
  "convert_currency (Finite 5277655813324800 (- 42)) EUR = currency_symbols EUR @ ''1,092.00''"
  by (simp add: float_eval rate_EUR del: exchange_rates.simps)

text \<open>
  C1. For the document of the scenario and the target currency EUR (rate 0.91), the budget
  section is the heading line and the line of the total, the literal \<open>$1,200\<close> reads
  \<open>$1,200 (\<close>euro sign\<open>1,092.00)\<close>, and the heading "## Tips" and its content are not part
  of the section, before or after annotation.
\<close>

theorem budget_scenario_EUR:
  "budget_section ''## Budget\<newline>Total: $1,200 for flights\<newline>## Tips\<newline>Bring sunscreen'' =
     ''## Budget\<newline>Total: $1,200 for flights\<newline>'' \<and>
   generate_budget_section
     ''## Budget\<newline>Total: $1,200 for flights\<newline>## Tips\<newline>Bring sunscreen'' EUR =
     ''## Budget\<newline>Total: $1,200 ('' @ currency_symbols EUR @ ''1,092.00) for flights\<newline>'' \<and>
   \<not> contains ''Tips''
     (generate_budget_section
        ''## Budget\<newline>Total: $1,200 for flights\<newline>## Tips\<newline>Bring sunscreen'' EUR) \<and>
   \<not> contains ''sunscreen''
     (generate_budget_section
        ''## Budget\<newline>Total: $1,200 for flights\<newline>## Tips\<newline>Bring sunscreen'' EUR)"
  by (simp add: text_eval amount_eval py_float_1200 convert_1200_EUR)

section \<open>Evaluating the patterns on a given text\<close>

text \<open>\<open>lower_char\<close> on each ASCII character.\<close>

lemma lower_char_ascii:
  "lower_char (CHR 0x00) = CHR 0x00"
  "lower_char (CHR 0x01) = CHR 0x01"
  "lower_char (CHR 0x02) = CHR 0x02"
  "lower_char (CHR 0x03) = CHR 0x03"
  "lower_char (CHR 0x04) = CHR 0x04"
  "lower_char (CHR 0x05) = CHR 0x05"
  "lower_char (CHR 0x06) = CHR 0x06"
  "lower_char (CHR 0x07) = CHR 0x07"
  "lower_char (CHR 0x08) = CHR 0x08"
  "lower_char (CHR 0x09) = CHR 0x09"
  "lower_char (CHR 0x0A) = CHR 0x0A"
  "lower_char (CHR 0x0B) = CHR 0x0B"
  "lower_char (CHR 0x0C) = CHR 0x0C"
  "lower_char (CHR 0x0D) = CHR 0x0D"
  "lower_char (CHR 0x0E) = CHR 0x0E"
  "lower_char (CHR 0x0F) = CHR 0x0F"
  "lower_char (CHR 0x10) = CHR 0x10"
  "lower_char (CHR 0x11) = CHR 0x11"
  "lower_char (CHR 0x12) = CHR 0x12"
  "lower_char (CHR 0x13) = CHR 0x13"
  "lower_char (CHR 0x14) = CHR 0x14"
  "lower_char (CHR 0x15) = CHR 0x15"
  "lower_char (CHR 0x16) = CHR 0x16"
  "lower_char (CHR 0x17) = CHR 0x17"
  "lower_char (CHR 0x18) = CHR 0x18"
  "lower_char (CHR 0x19) = CHR 0x19"
  "lower_char (CHR 0x1A) = CHR 0x1A"
  "lower_char (CHR 0x1B) = CHR 0x1B"
  "lower_char (CHR 0x1C) = CHR 0x1C"
  "lower_char (CHR 0x1D) = CHR 0x1D"
  "lower_char (CHR 0x1E) = CHR 0x1E"
  "lower_char (CHR 0x1F) = CHR 0x1F"
  "lower_char (CHR 0x20) = CHR 0x20"
  "lower_char (CHR 0x21) = CHR 0x21"
  "lower_char (CHR 0x22) = CHR 0x22"
  "lower_char (CHR 0x23) = CHR 0x23"
  "lower_char (CHR 0x24) = CHR 0x24"
  "lower_char (CHR 0x25) = CHR 0x25"
  "lower_char (CHR 0x26) = CHR 0x26"
  "lower_char (CHR 0x27) = CHR 0x27"
  "lower_char (CHR 0x28) = CHR 0x28"
  "lower_char (CHR 0x29) = CHR 0x29"
  "lower_char (CHR 0x2A) = CHR 0x2A"
  "lower_char (CHR 0x2B) = CHR 0x2B"
  "lower_char (CHR 0x2C) = CHR 0x2C"
  "lower_char (CHR 0x2D) = CHR 0x2D"
  "lower_char (CHR 0x2E) = CHR 0x2E"
  "lower_char (CHR 0x2F) = CHR 0x2F"
  "lower_char (CHR 0x30) = CHR 0x30"
  "lower_char (CHR 0x31) = CHR 0x31"
  "lower_char (CHR 0x32) = CHR 0x32"
  "lower_char (CHR 0x33) = CHR 0x33"
  "lower_char (CHR 0x34) = CHR 0x34"
  "lower_char (CHR 0x35) = CHR 0x35"
  "lower_char (CHR 0x36) = CHR 0x36"
  "lower_char (CHR 0x37) = CHR 0x37"
  "lower_char (CHR 0x38) = CHR 0x38"
  "lower_char (CHR 0x39) = CHR 0x39"
  "lower_char (CHR 0x3A) = CHR 0x3A"
  "lower_char (CHR 0x3B) = CHR 0x3B"
  "lower_char (CHR 0x3C) = CHR 0x3C"
  "lower_char (CHR 0x3D) = CHR 0x3D"
  "lower_char (CHR 0x3E) = CHR 0x3E"
  "lower_char (CHR 0x3F) = CHR 0x3F"
  "lower_char (CHR 0x40) = CHR 0x40"
  "lower_char (CHR 0x41) = CHR 0x61"
  "lower_char (CHR 0x42) = CHR 0x62"
  "lower_char (CHR 0x43) = CHR 0x63"
  "lower_char (CHR 0x44) = CHR 0x64"
  "lower_char (CHR 0x45) = CHR 0x65"
  "lower_char (CHR 0x46) = CHR 0x66"
  "lower_char (CHR 0x47) = CHR 0x67"
  "lower_char (CHR 0x48) = CHR 0x68"
  "lower_char (CHR 0x49) = CHR 0x69"
  "lower_char (CHR 0x4A) = CHR 0x6A"
  "lower_char (CHR 0x4B) = CHR 0x6B"
  "lower_char (CHR 0x4C) = CHR 0x6C"
  "lower_char (CHR 0x4D) = CHR 0x6D"
  "lower_char (CHR 0x4E) = CHR 0x6E"
  "lower_char (CHR 0x4F) = CHR 0x6F"
  "lower_char (CHR 0x50) = CHR 0x70"
  "lower_char (CHR 0x51) = CHR 0x71"
  "lower_char (CHR 0x52) = CHR 0x72"
  "lower_char (CHR 0x53) = CHR 0x73"
  "lower_char (CHR 0x54) = CHR 0x74"
  "lower_char (CHR 0x55) = CHR 0x75"
  "lower_char (CHR 0x56) = CHR 0x76"
  "lower_char (CHR 0x57) = CHR 0x77"
  "lower_char (CHR 0x58) = CHR 0x78"
  "lower_char (CHR 0x59) = CHR 0x79"
  "lower_char (CHR 0x5A) = CHR 0x7A"
  "lower_char (CHR 0x5B) = CHR 0x5B"
  "lower_char (CHR 0x5C) = CHR 0x5C"
  "lower_char (CHR 0x5D) = CHR 0x5D"
  "lower_char (CHR 0x5E) = CHR 0x5E"
  "lower_char (CHR 0x5F) = CHR 0x5F"
  "lower_char (CHR 0x60) = CHR 0x60"
  "lower_char (CHR 0x61) = CHR 0x61"
  "lower_char (CHR 0x62) = CHR 0x62"
  "lower_char (CHR 0x63) = CHR 0x63"
  "lower_char (CHR 0x64) = CHR 0x64"
  "lower_char (CHR 0x65) = CHR 0x65"
  "lower_char (CHR 0x66) = CHR 0x66"
  "lower_char (CHR 0x67) = CHR 0x67"
  "lower_char (CHR 0x68) = CHR 0x68"
  "lower_char (CHR 0x69) = CHR 0x69"
  "lower_char (CHR 0x6A) = CHR 0x6A"
  "lower_char (CHR 0x6B) = CHR 0x6B"
  "lower_char (CHR 0x6C) = CHR 0x6C"
  "lower_char (CHR 0x6D) = CHR 0x6D"
  "lower_char (CHR 0x6E) = CHR 0x6E"
  "lower_char (CHR 0x6F) = CHR 0x6F"
  "lower_char (CHR 0x70) = CHR 0x70"
  "lower_char (CHR 0x71) = CHR 0x71"
  "lower_char (CHR 0x72) = CHR 0x72"
  "lower_char (CHR 0x73) = CHR 0x73"
  "lower_char (CHR 0x74) = CHR 0x74"
  "lower_char (CHR 0x75) = CHR 0x75"
  "lower_char (CHR 0x76) = CHR 0x76"
  "lower_char (CHR 0x77) = CHR 0x77"
  "lower_char (CHR 0x78) = CHR 0x78"
  "lower_char (CHR 0x79) = CHR 0x79"
  "lower_char (CHR 0x7A) = CHR 0x7A"
  "lower_char (CHR 0x7B) = CHR 0x7B"
  "lower_char (CHR 0x7C) = CHR 0x7C"
  "lower_char (CHR 0x7D) = CHR 0x7D"
  "lower_char (CHR 0x7E) = CHR 0x7E"
  "lower_char (CHR 0x7F) = CHR 0x7F"
  by (simp_all add: lower_char_def uppercase_def lowercase_def)

lemma prefix_ci_Nil: "prefix_ci [] s"
  by (simp add: prefix_ci_def lower_def)

lemma prefix_ci_Cons_Nil: "\<not> prefix_ci (l # lit) []"
  by (simp add: prefix_ci_def lower_def)

lemma prefix_ci_Cons:
  "prefix_ci (l # lit) (c # s) = (if lower_char c = lower_char l then prefix_ci lit s else False)"
  by (simp add: prefix_ci_def lower_def)

lemma match_dest_Nil: "match_dest (v # verb) [] = None"
  by (simp add: match_dest_def prefix_ci_Cons_Nil)

lemma match_dest_other:
  "lower_char c \<noteq> lower_char v \<Longrightarrow> match_dest (v # verb) (c # cs) = None"
  by (simp add: match_dest_def prefix_ci_Cons)

lemma match_dest_first:
  "lower_char c = lower_char v \<Longrightarrow> match_dest (v # verb) (c # cs) =
     (if \<not> prefix_ci verb cs then None
      else
        let s = c # cs;
            n = Suc (length verb);
            v = take n s;
            r0 = drop n s;
            ws = takeWhile is_space r0;
            r1 = dropWhile is_space r0;
            cap = takeWhile is_dest_char r1
        in if ws = [] then None
           else if cap \<noteq> [] then Some (v @ ws @ cap, cap)
           else if 2 \<le> length ws then Some (v @ ws, [last ws])
           else None)"
  by (simp add: match_dest_def prefix_ci_Cons Let_def)

lemmas char_eval = NL_def uppercase_def lowercase_def is_digit_def is_space_def is_upper_def
  is_alpha_def lower_char_ascii lower_def

lemmas request_eval = char_eval Let_def prefix_ci_Nil prefix_ci_Cons_Nil prefix_ci_Cons
  match_dest_Nil match_dest_other match_dest_first
  py_split_def py_strip_def travel_verbs_def
  is_dest_char_def sub_trailing_punct_def clean_dest_def verb_destinations_def stopwords_def
  capitalised_words_def append_unique_def extract_destinations_def

section \<open>Amounts with several groups of thousands\<close>

text \<open>
  C8 fails on the code: the pattern takes one comma group at most, so \<open>$1,200,000\<close> is
  matched as \<open>$1,200\<close> and the annotation is put in the middle of the amount.
\<close>

theorem two_comma_groups_split:
  "dollar_amounts ''Total: $1,200,000'' = [''1,200''] \<and>
   generate_budget_section ''## Budget\<newline>Total: $1,200,000'' EUR =
     ''## Budget\<newline>Total: $1,200 ('' @ currency_symbols EUR @ ''1,092.00),000\<newline>''"
  by (simp add: text_eval amount_eval py_float_1200 convert_1200_EUR)

section \<open>The duration of a trip\<close>

subsection \<open>Digits, whitespace and letters\<close>

lemma re_search_Some:
  "re_search m s = Some r \<Longrightarrow> \<exists>t. m t = Some r"
  by (induction s) (auto split: option.splits)

lemma re_search_here: "m s = Some r \<Longrightarrow> re_search m s = Some r"
  by (cases s) simp_all

lemma uspaces_not_decimal: "list_all (\<lambda>c. \<not> is_decimal c) uspaces"
  by (simp add: uspaces_def is_decimal_def decimal_ranges_def in_range_def)

lemma is_decimal_not_uspace: "is_decimal c \<Longrightarrow> \<not> is_uspace c"
  using uspaces_not_decimal by (auto simp: is_uspace_def list_all_iff)

lemma usplit_ws_word:
  "\<forall>c \<in> set xs. \<not> is_uspace c \<Longrightarrow> usplit_ws w (xs @ rest) = usplit_ws (w @ xs) rest"
  by (induction xs arbitrary: w) simp_all

lemma usplit_ws_spaces:
  "\<forall>c \<in> set ws. is_uspace c \<Longrightarrow> usplit_ws [] (ws @ rest) = usplit_ws [] rest"
  by (induction ws) simp_all

lemma usplit_ws_flush:
  "ws \<noteq> [] \<Longrightarrow> \<forall>c \<in> set ws. is_uspace c \<Longrightarrow> w \<noteq> [] \<Longrightarrow>
   usplit_ws w (ws @ rest) = w # usplit_ws [] rest"
  by (cases ws) (simp_all add: usplit_ws_spaces)

lemma usplit_two_words:
  assumes "num \<noteq> []" "\<forall>c \<in> set num. \<not> is_uspace c"
    and "ws \<noteq> []" "\<forall>c \<in> set ws. is_uspace c"
    and "u \<noteq> []" "\<forall>c \<in> set u. \<not> is_uspace c"
  shows "usplit (num @ ws @ u) = [num, u]"
proof -
  have "usplit (num @ ws @ u) = usplit_ws num (ws @ u)"
    using usplit_ws_word [OF assms(2), of "[]" "ws @ u"] by (simp add: usplit_def)
  also have "\<dots> = num # usplit_ws [] u"
    using assms by (intro usplit_ws_flush)
  also have "usplit_ws [] u = usplit_ws u []"
    using usplit_ws_word [OF assms(6), of "[]" "[]"] by simp
  finally show ?thesis using assms(5) by simp
qed

lemma ci_prefix_take:
  "ci_prefix lit s \<Longrightarrow> list_all2 ci_match lit (take (length lit) s)"
  by (induction lit s rule: ci_prefix.induct) simp_all

text \<open>
  What holds of every variant of every letter of a word holds of every character of a
  text that matches the word.
\<close>

lemma matched_chars:
  "list_all2 ci_match lit w \<Longrightarrow> \<forall>l \<in> set lit. \<forall>c \<in> set (ci_variants l). P c \<Longrightarrow>
   \<forall>c \<in> set w. P c"
  by (induction rule: list_all2_induct) (auto simp: ci_match_def)

lemma matched_lower:
  "list_all2 ci_match lit w \<Longrightarrow>
   \<forall>l \<in> set lit. \<forall>c \<in> set (ci_variants l). ulower_char c = [l] \<Longrightarrow> ulower w = lit"
  by (induction rule: list_all2_induct) (auto simp: ci_match_def ulower_def)

lemma ulower_append: "ulower (xs @ ys) = ulower xs @ ulower ys"
  by (simp add: ulower_def)

lemma set_ulower: "set (ulower s) = (\<Union>c \<in> set s. set (ulower_char c))"
  by (simp add: ulower_def)

lemma contains_Cons_absent: "x \<notin> set s \<Longrightarrow> \<not> contains (x # xs) s"
  by (induction s) auto

lemma contains_prefix: "contains xs (xs @ ys)"
proof (cases "xs @ ys")
  case Nil
  then show ?thesis by simp
next
  case (Cons a list)
  have "prefix xs (xs @ ys)" by simp
  with Cons show ?thesis by (metis contains.simps(2))
qed

text \<open>What a match of a duration pattern looks like.\<close>

lemma match_duration_Some:
  assumes "match_duration unit t = Some (whole, grp)"
  shows "\<exists>ws w pl. whole = grp @ ws @ w @ pl \<and> grp \<noteq> [] \<and> (\<forall>c \<in> set grp. is_decimal c) \<and>
           ws \<noteq> [] \<and> (\<forall>c \<in> set ws. is_uspace c) \<and> list_all2 ci_match unit w \<and>
           (pl = [] \<or> (\<exists>c. pl = [c] \<and> ci_match 0x73 c))"
proof -
  let ?r1 = "dropWhile is_decimal t"
  let ?r2 = "dropWhile is_uspace ?r1"
  let ?r3 = "drop (length unit) ?r2"
  let ?pl = "case ?r3 of [] \<Rightarrow> [] | c # cs \<Rightarrow> if ci_match 0x73 c then [c] else []"
  from assms have ok: "takeWhile is_decimal t \<noteq> []" "takeWhile is_uspace ?r1 \<noteq> []"
      "ci_prefix unit ?r2"
    and whole: "whole = takeWhile is_decimal t @ takeWhile is_uspace ?r1 @ take (length unit) ?r2 @ ?pl"
    and grp: "grp = takeWhile is_decimal t"
    by (auto simp: match_duration_def Let_def split: if_splits)
  have pl: "?pl = [] \<or> (\<exists>c. ?pl = [c] \<and> ci_match 0x73 c)"
    by (cases ?r3) auto
  show ?thesis
    apply (rule exI [of _ "takeWhile is_uspace ?r1"])
    apply (rule exI [of _ "take (length unit) ?r2"])
    apply (rule exI [of _ ?pl])
    using ok whole grp pl ci_prefix_take [OF ok(3)]
    by (auto dest: set_takeWhileD)
qed

subsection \<open>The unit word of a match\<close>

lemma plural_chars:
  "ci_match 0x73 c \<Longrightarrow> \<not> is_uspace c \<and> 0x77 \<notin> set (ulower_char c)"
  by (auto simp: ci_match_def ci_variants_def is_uspace_def uspaces_def ulower_char_def)

text \<open>
  One pattern of the loop: when it matches, \<open>int\<close> of the digits decides between the
  error and the number, and \<open>b\<close> says whether the unit word that is read back from the
  match holds "week".
\<close>

lemma duration_loop_step:
  assumes unit: "unit \<noteq> []" "\<forall>l \<in> set unit. \<forall>c \<in> set (ci_variants l). \<not> is_uspace c"
    and week: "\<And>w pl. list_all2 ci_match unit w \<Longrightarrow>
        pl = [] \<or> (\<exists>c. pl = [c] \<and> ci_match 0x73 c) \<Longrightarrow>
        contains (ustr ''week'') (ulower (w @ pl)) = b"
  shows "duration_loop (unit # patterns) text =
     (case re_search (match_duration unit) text of
        None \<Rightarrow> duration_loop patterns text
      | Some (whole, grp) \<Rightarrow>
          (if 4300 < length grp then Inl (int_limit_error (length grp))
           else Inr (Some (if b then int (decimal_number grp) * 7 else int (decimal_number grp)))))"
proof (cases "re_search (match_duration unit) text")
  case None
  then show ?thesis by simp
next
  case (Some r)
  obtain whole grp where r: "r = (whole, grp)" by (cases r)
  from Some r re_search_Some obtain t where "match_duration unit t = Some (whole, grp)"
    by blast
  from match_duration_Some [OF this] obtain ws w pl where
    whole: "whole = grp @ ws @ w @ pl" and grp: "grp \<noteq> []" "\<forall>c \<in> set grp. is_decimal c"
    and ws: "ws \<noteq> []" "\<forall>c \<in> set ws. is_uspace c" and w: "list_all2 ci_match unit w"
    and pl: "pl = [] \<or> (\<exists>c. pl = [c] \<and> ci_match 0x73 c)"
    by blast
  have wne: "w \<noteq> []" using w unit(1) by auto
  have w_ns: "\<forall>c \<in> set w. \<not> is_uspace c"
    using matched_chars [OF w unit(2)] .
  have pl_ns: "\<forall>c \<in> set pl. \<not> is_uspace c"
    using pl plural_chars by auto
  have "usplit (grp @ ws @ (w @ pl)) = [grp, w @ pl]"
    using grp ws wne w_ns pl_ns
    by (intro usplit_two_words) (auto dest: is_decimal_not_uspace)
  then have split: "usplit whole = [grp, w @ pl]" by (simp add: whole)
  show ?thesis
    using Some r split week [OF w pl] by (simp add: py_int_def Let_def)
qed

lemma no_week_without_w:
  assumes "\<forall>c \<in> set w. 0x77 \<notin> set (ulower_char c)"
    and "pl = [] \<or> (\<exists>c. pl = [c] \<and> ci_match 0x73 c)"
  shows "contains (ustr ''week'') (ulower (w @ pl)) = False"
proof -
  have "\<forall>c \<in> set pl. 0x77 \<notin> set (ulower_char c)"
    using assms(2) plural_chars by auto
  with assms(1) have "0x77 \<notin> set (ulower (w @ pl))"
    by (auto simp: set_ulower)
  then show ?thesis
    using contains_Cons_absent [of "0x77" "ulower (w @ pl)" "ustr ''eek''"]
    by (simp add: ustr_def)
qed

lemma duration_loop_day:
  "duration_loop (ustr ''day'' # ps) text =
     (case re_search (match_duration (ustr ''day'')) text of
        None \<Rightarrow> duration_loop ps text
      | Some (whole, grp) \<Rightarrow>
          (if 4300 < length grp then Inl (int_limit_error (length grp))
           else Inr (Some (int (decimal_number grp)))))"
proof -
  have v: "\<forall>l \<in> set (ustr ''day''). \<forall>c \<in> set (ci_variants l).
      \<not> is_uspace c \<and> 0x77 \<notin> set (ulower_char c)"
    by (simp add: ustr_def ci_variants_def is_uspace_def uspaces_def ulower_char_def)
  have "contains (ustr ''week'') (ulower (w @ pl)) = False"
    if w: "list_all2 ci_match (ustr ''day'') w"
      and pl: "pl = [] \<or> (\<exists>c. pl = [c] \<and> ci_match 0x73 c)" for w pl
    using matched_chars [OF w, of "\<lambda>c. 0x77 \<notin> set (ulower_char c)"] v pl
    by (intro no_week_without_w) blast+
  from duration_loop_step [of "ustr ''day''" False ps "text", OF _ _ this]
  show ?thesis
    using v by (simp add: ustr_def del: duration_loop.simps cong: option.case_cong if_cong)
qed

lemma duration_loop_night:
  "duration_loop (ustr ''night'' # ps) text =
     (case re_search (match_duration (ustr ''night'')) text of
        None \<Rightarrow> duration_loop ps text
      | Some (whole, grp) \<Rightarrow>
          (if 4300 < length grp then Inl (int_limit_error (length grp))
           else Inr (Some (int (decimal_number grp)))))"
proof -
  have v: "\<forall>l \<in> set (ustr ''night''). \<forall>c \<in> set (ci_variants l).
      \<not> is_uspace c \<and> 0x77 \<notin> set (ulower_char c)"
    by (simp add: ustr_def ci_variants_def is_uspace_def uspaces_def ulower_char_def)
  have "contains (ustr ''week'') (ulower (w @ pl)) = False"
    if w: "list_all2 ci_match (ustr ''night'') w"
      and pl: "pl = [] \<or> (\<exists>c. pl = [c] \<and> ci_match 0x73 c)" for w pl
    using matched_chars [OF w, of "\<lambda>c. 0x77 \<notin> set (ulower_char c)"] v pl
    by (intro no_week_without_w) blast+
  from duration_loop_step [of "ustr ''night''" False ps "text", OF _ _ this]
  show ?thesis
    using v by (simp add: ustr_def del: duration_loop.simps cong: option.case_cong if_cong)
qed

lemma duration_loop_week:
  "duration_loop (ustr ''week'' # ps) text =
     (case re_search (match_duration (ustr ''week'')) text of
        None \<Rightarrow> duration_loop ps text
      | Some (whole, grp) \<Rightarrow>
          (if 4300 < length grp then Inl (int_limit_error (length grp))
           else Inr (Some (int (decimal_number grp) * 7))))"
proof -
  have v: "\<forall>l \<in> set (ustr ''week''). \<forall>c \<in> set (ci_variants l).
      \<not> is_uspace c \<and> ulower_char c = [l]"
    by (simp add: ustr_def ci_variants_def is_uspace_def uspaces_def ulower_char_def)
  have "contains (ustr ''week'') (ulower (w @ pl)) = True"
    if w: "list_all2 ci_match (ustr ''week'') w" for w pl
  proof -
    have "ulower w = ustr ''week''"
      using matched_lower [OF w] v by blast
    then show ?thesis
      using contains_prefix [of "ustr ''week''" "ulower pl"] by (simp add: ulower_append)
  qed
  from duration_loop_step [of "ustr ''week''" True ps "text", OF _ _ this]
  show ?thesis
    using v by (simp add: ustr_def del: duration_loop.simps cong: option.case_cong if_cong)
qed

lemma extract_duration_cascade:
  "extract_duration text =
     (case re_search (match_duration (ustr ''day'')) text of
        Some (whole, grp) \<Rightarrow>
          (if 4300 < length grp then Inl (int_limit_error (length grp))
           else Inr (Some (int (decimal_number grp))))
      | None \<Rightarrow>
          (case re_search (match_duration (ustr ''week'')) text of
             Some (whole, grp) \<Rightarrow>
               (if 4300 < length grp then Inl (int_limit_error (length grp))
                else Inr (Some (int (decimal_number grp) * 7)))
           | None \<Rightarrow>
               (case re_search (match_duration (ustr ''night'')) text of
                  Some (whole, grp) \<Rightarrow>
                    (if 4300 < length grp then Inl (int_limit_error (length grp))
                     else Inr (Some (int (decimal_number grp))))
                | None \<Rightarrow> Inr None)))"
  unfolding extract_duration_def duration_patterns_def
  by (simp only: duration_loop_day duration_loop_week duration_loop_night
      duration_loop.simps(1) split: option.splits)

subsection \<open>Evaluating a match on a given text\<close>

lemma is_decimal_eval:
  "is_decimal c =
     (if c < 0x660 then 0x30 \<le> c \<and> c \<le> 0x39 else list_ex (in_range c) decimal_ranges)"
  by (auto simp: is_decimal_def decimal_ranges_def in_range_def)

lemma decimal_val_ascii: "0x30 \<le> c \<Longrightarrow> c \<le> 0x39 \<Longrightarrow> decimal_val c = c - 0x30"
  by (simp add: decimal_val_def decimal_ranges_def in_range_def)

lemma match_duration_Nil: "match_duration unit [] = None"
  by (simp add: match_duration_def)

lemma match_duration_other: "\<not> is_decimal c \<Longrightarrow> match_duration unit (c # cs) = None"
  by (simp add: match_duration_def)

lemma match_duration_digit:
  "is_decimal c \<Longrightarrow> match_duration unit (c # cs) =
     (let s = c # cs;
          num = takeWhile is_decimal s;
          r1 = dropWhile is_decimal s;
          ws = takeWhile is_uspace r1;
          r2 = dropWhile is_uspace r1
      in if num = [] \<or> ws = [] \<or> \<not> ci_prefix unit r2 then None
         else
           let w = take (length unit) r2;
               r3 = drop (length unit) r2;
               pl = (case r3 of [] \<Rightarrow> [] | c # cs \<Rightarrow> if ci_match 0x73 c then [c] else [])
           in Some (num @ ws @ w @ pl, num))"
  by (simp add: match_duration_def Let_def)

lemmas duration_eval = ustr_def is_decimal_eval in_range_def decimal_ranges_def is_uspace_def
  uspaces_def ci_match_def ci_variants_def Let_def match_duration_Nil match_duration_other
  match_duration_digit decimal_number_def decimal_val_def

text \<open>A number of any length before " days" is matched by the pattern of days.\<close>

lemma match_duration_run:
  assumes "ds \<noteq> []" "\<forall>c \<in> set ds. is_decimal c"
  shows "match_duration (ustr ''day'') (ds @ ustr '' days'') = Some (ds @ ustr '' days'', ds)"
proof -
  have tw: "takeWhile is_decimal (ds @ [0x20, 0x64, 0x61, 0x79, 0x73]) = ds"
    using assms(2) by (simp add: takeWhile_append2 is_decimal_eval)
  have dw: "dropWhile is_decimal (ds @ [0x20, 0x64, 0x61, 0x79, 0x73]) = [0x20, 0x64, 0x61, 0x79, 0x73]"
    using assms(2) by (simp add: dropWhile_append2 is_decimal_eval)
  show ?thesis
    using assms(1)
    by (simp add: ustr_def match_duration_def Let_def tw dw is_uspace_def uspaces_def
        ci_match_def ci_variants_def is_decimal_eval)
qed

lemma long_number_match:
  "re_search (match_duration (ustr ''day'')) (replicate 4301 0x31 @ ustr '' days'') =
     Some (replicate 4301 0x31 @ ustr '' days'', replicate 4301 0x31)"
  by (intro re_search_here match_duration_run) (simp_all add: is_decimal_eval)

subsection \<open>Claims on the duration\<close>

text \<open>
  C5, as stated, fails: a number of 4301 digits before " days" is matched by the pattern
  of days, and \<open>extract_duration\<close> does not return it but raises the \<open>ValueError\<close> of
  \<open>int\<close>.
\<close>

theorem long_number_counterexample:
  "re_search (match_duration (ustr ''day'')) (replicate 4301 0x31 @ ustr '' days'') \<noteq> None \<and>
   extract_duration (replicate 4301 0x31 @ ustr '' days'') = Inl (int_limit_error 4301) \<and>
   int_limit_error 4301 =
     ValueError ''Exceeds the limit (4300 digits) for integer string conversion: value has 4301 digits; use sys.set_int_max_str_digits() to increase the limit''"
proof (intro conjI)
  show "re_search (match_duration (ustr ''day'')) (replicate 4301 0x31 @ ustr '' days'') \<noteq> None"
    by (simp only: long_number_match) simp
  show "extract_duration (replicate 4301 0x31 @ ustr '' days'') = Inl (int_limit_error 4301)"
    by (simp only: extract_duration_cascade long_number_match) simp
  show "int_limit_error 4301 =
     ValueError ''Exceeds the limit (4300 digits) for integer string conversion: value has 4301 digits; use sys.set_int_max_str_digits() to increase the limit''"
    by (simp add: int_limit_error_def dec_digits_small dec_digits_big digit_char_def)
qed

text \<open>
  C5, amended. For every text, \<open>extract_duration\<close> tries the pattern of days, then of
  weeks, then of nights, each without regard to case and anywhere in the text. The first
  pattern that matches decides, wherever the matches of the later patterns stand. When
  the captured number has at most 4300 digits, a match of the days or nights pattern
  gives the number and a match of the weeks pattern seven times the number; with more
  digits \<open>int\<close> raises \<open>ValueError\<close>, which leaves the function. When no pattern matches
  the result is \<open>None\<close>, and nothing is raised.
\<close>

theorem extract_duration_priority:
  "extract_duration text =
     (case re_search (match_duration (ustr ''day'')) text of
        Some (whole, grp) \<Rightarrow>
          (if 4300 < length grp then Inl (int_limit_error (length grp))
           else Inr (Some (int (decimal_number grp))))
      | None \<Rightarrow>
          (case re_search (match_duration (ustr ''week'')) text of
             Some (whole, grp) \<Rightarrow>
               (if 4300 < length grp then Inl (int_limit_error (length grp))
                else Inr (Some (int (decimal_number grp) * 7)))
           | None \<Rightarrow>
               (case re_search (match_duration (ustr ''night'')) text of
                  Some (whole, grp) \<Rightarrow>
                    (if 4300 < length grp then Inl (int_limit_error (length grp))
                     else Inr (Some (int (decimal_number grp))))
                | None \<Rightarrow> Inr None)))"
  by (rule extract_duration_cascade)

theorem extract_duration_priority_witness:
  "extract_duration (ustr ''3 nights, 4 days'') = Inr (Some 4) \<and>
   extract_duration (ustr ''2 WEEKS in Rome'') = Inr (Some 14) \<and>
   extract_duration (ustr ''stay 3    Nights'') = Inr (Some 3) \<and>
   extract_duration ([0x35, 0xA0] @ ustr ''days'') = Inr (Some 5) \<and>
   extract_duration ([0x663, 0xFF12, 0x3000] @ ustr ''n'' @ [0x130] @ ustr ''ghts'') = Inr (Some 32) \<and>
   extract_duration (ustr ''2 wee'' @ [0x212A, 0x17F]) = Inr (Some 14) \<and>
   extract_duration (ustr ''a 7-day trip, someday'') = Inr None"
  by (simp add: extract_duration_priority duration_eval)

section \<open>The scenario of the request interpreter\<close>

lemma scenario_duration:
  "extract_duration (ustr ''Plan a 7-day trip to Tokyo and Kyoto in autumn for a solo traveler'') =
     Inr None"
  by (simp add: extract_duration_cascade duration_eval)

lemma scenario_trip_to:
  "verb_destinations ''Plan a 7-day trip to Tokyo and Kyoto in autumn for a solo traveler'' ''trip to'' =
     [''Tokyo and Kyoto in autumn for a solo traveler'']"
  by (simp add: request_eval)

lemma scenario_destinations:
  "extract_destinations ''Plan a 7-day trip to Tokyo and Kyoto in autumn for a solo traveler'' =
     [''Tokyo and Kyoto in autumn for a solo traveler'']"
  by (simp add: request_eval)

text \<open>
  C6, as stated, fails: for the request of the scenario \<open>extract_duration\<close> does not
  return 7, and "Tokyo" is not among the destinations.
\<close>

theorem scenario_request_counterexample:
  "extract_duration (ustr ''Plan a 7-day trip to Tokyo and Kyoto in autumn for a solo traveler'') \<noteq>
     Inr (Some 7) \<and>
   ''Tokyo'' \<notin> set (extract_destinations
     ''Plan a 7-day trip to Tokyo and Kyoto in autumn for a solo traveler'')"
  by (simp add: scenario_duration scenario_destinations)

text \<open>
  C6, amended. For the request of the scenario \<open>extract_duration\<close> returns no duration:
  "7-day" has a hyphen where the patterns want whitespace. \<open>extract_destinations\<close>
  returns one destination, the text "Tokyo and Kyoto in autumn for a solo traveler", which
  the phrase "trip to" captures.
\<close>

theorem scenario_request:
  "extract_duration (ustr ''Plan a 7-day trip to Tokyo and Kyoto in autumn for a solo traveler'') =
     Inr None \<and>
   extract_destinations ''Plan a 7-day trip to Tokyo and Kyoto in autumn for a solo traveler'' =
     [''Tokyo and Kyoto in autumn for a solo traveler''] \<and>
   verb_destinations ''Plan a 7-day trip to Tokyo and Kyoto in autumn for a solo traveler''
     ''trip to'' = [''Tokyo and Kyoto in autumn for a solo traveler'']"
  by (simp add: scenario_duration scenario_destinations scenario_trip_to)

section \<open>The order of the destinations\<close>

lemma append_unique_first: "foldl append_unique [] xs = rev (remdups (rev xs))"
  by (induction xs rule: rev_induct) (auto simp: append_unique_def)

lemma foldl_append_unique_extends:
  "\<exists>suf. foldl append_unique acc xs = acc @ suf \<and> set suf = set xs - set acc"
proof (induction xs arbitrary: acc)
  case Nil
  show ?case by simp
next
  case (Cons x xs)
  show ?case
  proof (cases "x \<in> set acc")
    case True
    from Cons [of acc] obtain suf where
      "foldl append_unique acc xs = acc @ suf" "set suf = set xs - set acc" by blast
    moreover have "foldl append_unique acc (x # xs) = foldl append_unique acc xs"
      using True by (simp add: append_unique_def)
    moreover have "set (x # xs) - set acc = set xs - set acc"
      using True by auto
    ultimately show ?thesis by metis
  next
    case False
    from Cons [of "acc @ [x]"] obtain suf where
      suf: "foldl append_unique (acc @ [x]) xs = (acc @ [x]) @ suf"
        "set suf = set xs - set (acc @ [x])" by blast
    have "foldl append_unique acc (x # xs) = acc @ (x # suf)"
      using False suf(1) by (simp add: append_unique_def)
    moreover have "set (x # suf) = set (x # xs) - set acc"
      using False suf(2) by auto
    ultimately show ?thesis by blast
  qed
qed

lemma foldl_append_unique_set: "set (foldl append_unique [] xs) = set xs"
  using foldl_append_unique_extends [of "[]" xs] by auto

lemma append_unique_order:
  assumes "d1 \<in> set xs" "d2 \<notin> set xs" "d2 \<in> set ys"
  shows "\<exists>pre mid post. foldl append_unique [] (xs @ ys) = pre @ d1 # mid @ d2 # post"
proof -
  let ?U = "foldl append_unique [] xs"
  have "d1 \<in> set ?U" using assms(1) by (simp add: foldl_append_unique_set)
  then obtain p q where U: "?U = p @ d1 # q" by (auto simp: in_set_conv_decomp)
  from foldl_append_unique_extends [of ?U ys] obtain suf where
    suf: "foldl append_unique ?U ys = ?U @ suf" "set suf = set ys - set ?U" by blast
  have "d2 \<in> set suf" using assms(2,3) suf(2) by (simp add: foldl_append_unique_set)
  then obtain r s where "suf = r @ d2 # s" by (auto simp: in_set_conv_decomp)
  with U suf(1) have "foldl append_unique [] (xs @ ys) = p @ d1 # (q @ r) @ d2 # s"
    by simp
  then show ?thesis by blast
qed

text \<open>
  C10. When the travel phrases capture destinations, the result is the list of the
  captures of the first phrase of \<open>travel_verbs\<close>, then of the second, and so on, each
  destination kept where it occurs first in that list and nowhere else. So a
  destination that phrase \<open>i\<close> captures stands before one that only phrases behind
  \<open>i\<close> capture, wherever the two stand in the text. The result never holds a destination
  twice.
\<close>

theorem extract_destinations_order:
  "(concat (map (verb_destinations text) travel_verbs) \<noteq> [] \<longrightarrow>
      extract_destinations text =
        rev (remdups (rev (concat (map (verb_destinations text) travel_verbs))))) \<and>
   (i < j \<and> j < length travel_verbs \<and>
    d1 \<in> set (verb_destinations text (travel_verbs ! i)) \<and>
    d2 \<in> set (verb_destinations text (travel_verbs ! j)) \<and>
    (\<forall>k \<le> i. d2 \<notin> set (verb_destinations text (travel_verbs ! k))) \<longrightarrow>
      (\<exists>pre mid post. extract_destinations text = pre @ d1 # mid @ d2 # post)) \<and>
   distinct (extract_destinations text)"
proof (intro conjI impI)
  let ?V = "verb_destinations text"
  let ?found = "concat (map ?V travel_verbs)"
  show "extract_destinations text = rev (remdups (rev ?found))" if "?found \<noteq> []"
    unfolding extract_destinations_def Let_def using that
    by (simp only: if_False append_unique_first)
  show "distinct (extract_destinations text)"
    by (simp add: extract_destinations_def Let_def append_unique_first)
  assume h: "i < j \<and> j < length travel_verbs \<and> d1 \<in> set (?V (travel_verbs ! i)) \<and>
    d2 \<in> set (?V (travel_verbs ! j)) \<and> (\<forall>k \<le> i. d2 \<notin> set (?V (travel_verbs ! k)))"
  let ?xs = "concat (map ?V (take (Suc i) travel_verbs))"
  let ?ys = "concat (map ?V (drop (Suc i) travel_verbs))"
  have split: "?found = ?xs @ ?ys"
    by (metis append_take_drop_id concat_append map_append)
  have "travel_verbs ! i \<in> set (take (Suc i) travel_verbs)"
    using h by (auto simp: in_set_conv_nth intro!: exI [of _ i])
  then have d1: "d1 \<in> set ?xs" using h by auto
  have d2: "d2 \<notin> set ?xs"
  proof
    assume "d2 \<in> set ?xs"
    then obtain v where v: "v \<in> set (take (Suc i) travel_verbs)" "d2 \<in> set (?V v)" by auto
    then obtain k where "k < Suc i" "k < length travel_verbs" "v = travel_verbs ! k"
      by (auto simp: in_set_conv_nth)
    with v(2) h show False by auto
  qed
  have "travel_verbs ! j \<in> set (drop (Suc i) travel_verbs)"
    using h by (auto simp: in_set_conv_nth intro!: exI [of _ "j - Suc i"])
  then have d2': "d2 \<in> set ?ys" using h by auto
  have "?found \<noteq> []" using d1 split by auto
  then have "extract_destinations text = foldl append_unique [] ?found"
    unfolding extract_destinations_def Let_def by (simp only: if_False)
  then have "extract_destinations text = foldl append_unique [] (?xs @ ?ys)"
    using split by simp
  with append_unique_order [OF d1 d2 d2']
  show "\<exists>pre mid post. extract_destinations text = pre @ d1 # mid @ d2 # post"
    by simp
qed

lemma order_example_visit:
  "verb_destinations ''trip to Rome. visit Oslo'' ''visit'' = [''Oslo'']"
  by (simp add: request_eval)

lemma order_example_trip_to:
  "verb_destinations ''trip to Rome. visit Oslo'' ''trip to'' = [''Rome'']"
  by (simp add: request_eval)

lemma order_example_result:
  "extract_destinations ''trip to Rome. visit Oslo'' = [''Oslo'', ''Rome'']"
  by (simp add: request_eval)

theorem extract_destinations_order_witness:
  "(\<exists>pre mid post.
      extract_destinations ''trip to Rome. visit Oslo'' = pre @ ''Oslo'' # mid @ ''Rome'' # post) \<and>
   extract_destinations ''trip to Rome. visit Oslo'' = [''Oslo'', ''Rome''] \<and>
   distinct (extract_destinations ''trip to Rome. visit Oslo'')"
proof -
  have h: "(0::nat) < 7 \<and> 7 < length travel_verbs \<and>
    ''Oslo'' \<in> set (verb_destinations ''trip to Rome. visit Oslo'' (travel_verbs ! 0)) \<and>
    ''Rome'' \<in> set (verb_destinations ''trip to Rome. visit Oslo'' (travel_verbs ! 7)) \<and>
    (\<forall>k \<le> 0. ''Rome'' \<notin> set (verb_destinations ''trip to Rome. visit Oslo'' (travel_verbs ! k)))"
    by (simp add: travel_verbs_def order_example_visit order_example_trip_to)
  from extract_destinations_order [of "''trip to Rome. visit Oslo''" 0 7 "''Oslo''" "''Rome''"]
  have "\<exists>pre mid post.
      extract_destinations ''trip to Rome. visit Oslo'' = pre @ ''Oslo'' # mid @ ''Rome'' # post"
    and "distinct (extract_destinations ''trip to Rome. visit Oslo'')"
    using h by blast+
  then show ?thesis
    using order_example_result by simp
qed

section \<open>Annotating a span\<close>

subsection \<open>Scanning and replacing around one dollar sign\<close>











subsection \<open>The shape of a matched amount\<close>






lemma is_digit_not_point: "is_digit c \<Longrightarrow> c \<noteq> CHR ''.''"
  by (auto simp: is_digit_def)







subsection \<open>One amount in a span\<close>


subsection \<open>What stands behind a matched amount\<close>



subsection \<open>The characters of a converted amount\<close>







subsection \<open>Claims on the annotation\<close>

lemma py_float_5: "py_float ''5'' = Some (Finite 5629499534213120 (- 50))"
  by (simp add: float_eval)

lemma convert_5_EUR:
  "convert_currency (Finite 5629499534213120 (- 50)) EUR = currency_symbols EUR @ ''4.55''"
  by (simp add: float_eval rate_EUR del: exchange_rates.simps)

lemma py_float_50: "py_float ''50'' = Some (Finite 7036874417766400 (- 47))"
  by (simp add: float_eval)

lemma convert_50_EUR:
  "convert_currency (Finite 7036874417766400 (- 47)) EUR = currency_symbols EUR @ ''45.50''"
  by (simp add: float_eval rate_EUR del: exchange_rates.simps)

text \<open>
  C2 fails on the code. The loop goes through the matches of the pattern as
  \<open>re.findall\<close> lists them, a repeated literal once for each of its occurrences, and
  replaces every occurrence of the literal in the span each time. So the literal \<open>$5\<close>,
  which occurs twice in the first span, is annotated twice at each occurrence; and in the
  second span the literal \<open>$5\<close> is replaced inside the longer literal \<open>$50\<close>, which
  is left without its own conversion.
\<close>

theorem repeated_amount_wrapped_twice:
  "dollar_amounts ''$5 and $5'' = [''5'', ''5''] \<and>
   generate_budget_section ''## Budget\<newline>$5 and $5'' EUR =
     ''## Budget\<newline>$5 ('' @ currency_symbols EUR @ ''4.55) ('' @ currency_symbols EUR @
     ''4.55) and $5 ('' @ currency_symbols EUR @ ''4.55) ('' @ currency_symbols EUR @
     ''4.55)\<newline>'' \<and>
   dollar_amounts ''$5 and $50'' = [''5'', ''50''] \<and>
   generate_budget_section ''## Budget\<newline>$5 and $50'' EUR =
     ''## Budget\<newline>$5 ('' @ currency_symbols EUR @ ''4.55) and $5 ('' @
     currency_symbols EUR @ ''4.55)0\<newline>''"
  by (simp add: text_eval amount_eval py_float_5 convert_5_EUR py_float_50 convert_50_EUR)




end
